theory Spec2Isabelle
  imports Complex_Main "HOL-Library.AList" "HOL-Library.Char_ord" "HOL-Library.List_Lexorder"
begin

section \<open>JSON values as Python sees them\<close>

text \<open>
  \<open>Entry.data\<close> and \<open>FieldDefinition.options\<close> are Django \<open>JSONField\<close>s: any JSON document.
  A JSON value is \<open>None\<close>, a \<open>bool\<close>, an \<open>int\<close> (unbounded), a \<open>float\<close>, a \<open>str\<close>, a \<open>list\<close>
  or a \<open>dict\<close> with string keys. A float stands for the rational number it denotes (every
  finite double is one, and Python compares \<open>int\<close> with \<open>float\<close> exactly); the non-finite
  floats, which JSON does not have, are not part of the model. A string is its UTF-8 byte
  sequence, whose lexicographic order coincides with Python's code point order. A dict is an
  association list read through \<open>map_of\<close>.
\<close>

datatype json =
    JNull
  | JBool bool
  | JInt int
  | JFloat rat
  | JStr string
  | JList "json list"
  | JDict "(string \<times> json) list"

type_synonym dict = "(string \<times> json) list"

text \<open>\<open>d.get(k)\<close> and \<open>d.get(k, default)\<close>.\<close>

definition dict_get :: "dict \<Rightarrow> string \<Rightarrow> json" where
  "dict_get d k = (case map_of d k of None \<Rightarrow> JNull | Some v \<Rightarrow> v)"

definition dict_get_default :: "dict \<Rightarrow> string \<Rightarrow> json \<Rightarrow> json" where
  "dict_get_default d k dflt = (case map_of d k of None \<Rightarrow> dflt | Some v \<Rightarrow> v)"

text \<open>Truth value testing (\<open>x or {}\<close>, \<open>choices and ...\<close>).\<close>

fun truthy :: "json \<Rightarrow> bool" where
  "truthy JNull = False"
| "truthy (JBool b) = b"
| "truthy (JInt i) = (i \<noteq> 0)"
| "truthy (JFloat r) = (r \<noteq> 0)"
| "truthy (JStr s) = (s \<noteq> [])"
| "truthy (JList xs) = (xs \<noteq> [])"
| "truthy (JDict kvs) = (kvs \<noteq> [])"

text \<open>\<open>isinstance(x, str)\<close>, \<open>isinstance(x, bool)\<close>, \<open>isinstance(x, list)\<close>.\<close>

fun isinstance_str :: "json \<Rightarrow> bool" where
  "isinstance_str (JStr s) = True"
| "isinstance_str _ = False"

fun isinstance_bool :: "json \<Rightarrow> bool" where
  "isinstance_bool (JBool b) = True"
| "isinstance_bool _ = False"

fun isinstance_list :: "json \<Rightarrow> bool" where
  "isinstance_list (JList xs) = True"
| "isinstance_list _ = False"

text \<open>
  \<open>isinstance(x, (int, float))\<close> together with the number that \<open>x\<close> is in a comparison:
  \<open>bool\<close> is a subclass of \<open>int\<close>, \<open>True\<close> is 1 and \<open>False\<close> is 0. \<open>None\<close> means that the
  \<open>isinstance\<close> test fails.
\<close>

fun num_val :: "json \<Rightarrow> rat option" where
  "num_val (JBool b) = Some (if b then 1 else 0)"
| "num_val (JInt i) = Some (of_int i)"
| "num_val (JFloat r) = Some r"
| "num_val _ = None"

definition isinstance_number :: "json \<Rightarrow> bool" where
  "isinstance_number x = (num_val x \<noteq> None)"

section \<open>Exceptions and messages\<close>

text \<open>
  The text of a message, with the values that an f-string interpolates kept as they are:
  \<open>UnknownFieldKeys ks\<close> is \<open>f"Unknown field keys: {ks}"\<close>, \<open>MustBeGe m\<close> is
  \<open>f"Must be \<ge> {m}."\<close>, \<open>MustBeLe m\<close> is \<open>f"Must be \<le> {m}."\<close>, \<open>AtLeastItems n\<close> is
  \<open>f"Must contain at least {n} items."\<close> and \<open>AtMostItems n\<close> is
  \<open>f"Must contain at most {n} items."\<close>.
\<close>

datatype message =
    Msg string
  | UnknownFieldKeys "string list"
  | MustBeGe json
  | MustBeLe json
  | AtLeastItems json
  | AtMostItems json

text \<open>What \<open>serializers.ValidationError\<close> carries: \<open>e.message_dict\<close> or \<open>e.messages\<close>.\<close>

datatype detail =
    DetailDict "(string \<times> message list) list"
  | DetailList "message list"

text \<open>
  \<open>ValidationError m\<close> is Django's \<open>ValidationError\<close> raised with one message,
  \<open>ValidationErrorDict\<close> the one raised with a dict; \<open>DRFValidationError\<close> is
  \<open>rest_framework.serializers.ValidationError\<close>. \<open>TypeError\<close> and \<open>AttributeError\<close> are
  what Python raises on an unsupported comparison or membership test and on a missing method.
\<close>

datatype py_exception =
    ValidationError message
  | ValidationErrorDict "(string \<times> message) list"
  | DRFValidationError detail
  | TypeError
  | AttributeError

text \<open>
  \<open>x < b\<close> and \<open>x > b\<close> for a number \<open>x\<close> (an \<open>int\<close>, \<open>float\<close> or \<open>bool\<close> value, or a
  length): a comparison of numbers, or \<open>TypeError\<close> when \<open>b\<close> is not a number.
\<close>

definition num_lt :: "rat \<Rightarrow> json \<Rightarrow> py_exception + bool" where
  "num_lt x b = (case num_val b of None \<Rightarrow> Inl TypeError | Some y \<Rightarrow> Inr (x < y))"

definition num_gt :: "rat \<Rightarrow> json \<Rightarrow> py_exception + bool" where
  "num_gt x b = (case num_val b of None \<Rightarrow> Inl TypeError | Some y \<Rightarrow> Inr (x > y))"

text \<open>\<open>sub in s\<close> for two strings: \<open>sub\<close> occurs in \<open>s\<close> as a contiguous substring.\<close>

fun str_contains :: "string \<Rightarrow> string \<Rightarrow> bool" where
  "str_contains [] sub = (sub = [])"
| "str_contains (c # cs) sub = (take (length sub) (c # cs) = sub \<or> str_contains cs sub)"

text \<open>
  \<open>s in choices\<close> for a string \<open>s\<close>: membership in a list (a string equals no value of another
  type), substring test on a string, key test on a dict; any other value is not iterable.
\<close>

fun py_in :: "string \<Rightarrow> json \<Rightarrow> py_exception + bool" where
  "py_in s (JList cs) = Inr (JStr s \<in> set cs)"
| "py_in s (JStr c) = Inr (str_contains c s)"
| "py_in s (JDict kvs) = Inr (s \<in> set (map fst kvs))"
| "py_in s _ = Inl TypeError"

section \<open>The models\<close>

text \<open>\<open>FieldDefinition.FieldType\<close>: the values stored in the \<open>field_type\<close> column.\<close>

definition TEXT :: string where "TEXT = ''text''"
definition LONG_TEXT :: string where "LONG_TEXT = ''long_text''"
definition NUMBER :: string where "NUMBER = ''number''"
definition BOOLEAN :: string where "BOOLEAN = ''boolean''"
definition DATE :: string where "DATE = ''date''"
definition DATETIME :: string where "DATETIME = ''datetime''"
definition SELECT :: string where "SELECT = ''select''"
definition MULTI_SELECT :: string where "MULTI_SELECT = ''multi_select''"
definition URL :: string where "URL = ''url''"
definition LIST :: string where "LIST = ''list''"

record FieldDefinition =
  key :: string
  label :: string
  field_type :: string
  required :: bool
  options :: json

text \<open>
  A \<open>HobbyType\<close>; \<open>fields_all\<close> is \<open>self.fields.all()\<close>, in the order of \<open>Meta.ordering\<close>.
\<close>

record HobbyType =
  name :: string
  fields_all :: "FieldDefinition list"

text \<open>
  An \<open>Entry\<close>, and equally the \<open>attrs\<close> it is built from. \<open>hobby_type = None\<close> is an entry whose
  \<open>hobby_type_id\<close> is not set; \<open>tags = None\<close> is \<open>attrs\<close> without the key \<open>"tags"\<close>.
\<close>

record Entry =
  hobby_type :: "HobbyType option"
  title :: string
  status :: string
  tags :: "nat list option"
  data :: json

section \<open>\<open>Entry._validate_value\<close>\<close>

text \<open>
  \<open>opts.get(k)\<close> and \<open>opts.get(k, default)\<close> for \<open>opts = field.options or {}\<close>: only a dict has
  the method \<open>get\<close>.
\<close>

definition opts_of :: "FieldDefinition \<Rightarrow> json" where
  "opts_of field = (if truthy (options field) then options field else JDict [])"

definition opts_get :: "json \<Rightarrow> string \<Rightarrow> py_exception + json" where
  "opts_get opts k = (case opts of JDict d \<Rightarrow> Inr (dict_get d k) | _ \<Rightarrow> Inl AttributeError)"

definition opts_get_default :: "json \<Rightarrow> string \<Rightarrow> json \<Rightarrow> py_exception + json" where
  "opts_get_default opts k dflt =
     (case opts of JDict d \<Rightarrow> Inr (dict_get_default d k dflt) | _ \<Rightarrow> Inl AttributeError)"

text \<open>
  \<open>isinstance(value, list) and all(isinstance(x, str) for x in value)\<close>, together with the
  strings that \<open>value\<close> then holds: \<open>None\<close> means that the test fails.
\<close>

fun strings_of :: "json \<Rightarrow> string list option" where
  "strings_of (JList []) = Some []"
| "strings_of (JList (JStr s # xs)) =
     (case strings_of (JList xs) of None \<Rightarrow> None | Some ss \<Rightarrow> Some (s # ss))"
| "strings_of _ = None"

text \<open>\<open>any(x not in choices for x in value)\<close>; \<open>any\<close> stops at the first hit.\<close>

fun any_not_in :: "string list \<Rightarrow> json \<Rightarrow> py_exception + bool" where
  "any_not_in [] choices = Inr False"
| "any_not_in (x # xs) choices =
     (case py_in x choices of
        Inl e \<Rightarrow> Inl e
      | Inr b \<Rightarrow> if \<not> b then Inr True else any_not_in xs choices)"

text \<open>The loop \<open>for item in value\<close> of the list branch.\<close>

fun check_items :: "json \<Rightarrow> json list \<Rightarrow> py_exception + unit" where
  "check_items item_type [] = Inr ()"
| "check_items item_type (item # items) =
     (if item_type = JStr ''text'' \<and> \<not> isinstance_str item
        then Inl (ValidationError (Msg ''All items must be strings.''))
      else if item_type = JStr ''number'' \<and> \<not> isinstance_number item
        then Inl (ValidationError (Msg ''All items must be numbers.''))
      else if item_type = JStr ''boolean'' \<and> \<not> isinstance_bool item
        then Inl (ValidationError (Msg ''All items must be booleans.''))
      else check_items item_type items)"

definition validate_number :: "json \<Rightarrow> json \<Rightarrow> py_exception + unit" where
  "validate_number opts v =
     (case num_val v of
        None \<Rightarrow> Inl (ValidationError (Msg ''Must be a number.''))
      | Some x \<Rightarrow>
         (case opts_get opts ''min'' of Inl e \<Rightarrow> Inl e | Inr minv \<Rightarrow>
          case opts_get opts ''max'' of Inl e \<Rightarrow> Inl e | Inr maxv \<Rightarrow>
          case (if minv \<noteq> JNull then num_lt x minv else Inr False) of
            Inl e \<Rightarrow> Inl e
          | Inr True \<Rightarrow> Inl (ValidationError (MustBeGe minv))
          | Inr False \<Rightarrow>
             (case (if maxv \<noteq> JNull then num_gt x maxv else Inr False) of
                Inl e \<Rightarrow> Inl e
              | Inr True \<Rightarrow> Inl (ValidationError (MustBeLe maxv))
              | Inr False \<Rightarrow> Inr ())))"

definition validate_select :: "json \<Rightarrow> json \<Rightarrow> py_exception + unit" where
  "validate_select opts v =
     (case opts_get_default opts ''choices'' (JList []) of Inl e \<Rightarrow> Inl e | Inr choices \<Rightarrow>
      case v of
        JStr s \<Rightarrow>
          (case (if truthy choices then py_in s choices else Inr True) of
             Inl e \<Rightarrow> Inl e
           | Inr False \<Rightarrow> Inl (ValidationError (Msg ''Invalid choice.''))
           | Inr True \<Rightarrow> Inr ())
      | _ \<Rightarrow> Inl (ValidationError (Msg ''Must be a string.'')))"

definition validate_multi_select :: "json \<Rightarrow> json \<Rightarrow> py_exception + unit" where
  "validate_multi_select opts v =
     (case opts_get_default opts ''choices'' (JList []) of Inl e \<Rightarrow> Inl e | Inr choices \<Rightarrow>
      case strings_of v of
        None \<Rightarrow> Inl (ValidationError (Msg ''Must be a list of strings.''))
      | Some xs \<Rightarrow>
          (case (if truthy choices then any_not_in xs choices else Inr False) of
             Inl e \<Rightarrow> Inl e
           | Inr True \<Rightarrow> Inl (ValidationError (Msg ''Contains invalid choice(s).''))
           | Inr False \<Rightarrow> Inr ()))"

definition validate_list :: "json \<Rightarrow> json \<Rightarrow> py_exception + unit" where
  "validate_list opts v =
     (case v of
        JList xs \<Rightarrow>
          (case opts_get_default opts ''item_type'' (JStr ''text'') of Inl e \<Rightarrow> Inl e | Inr item_type \<Rightarrow>
           case opts_get opts ''min_items'' of Inl e \<Rightarrow> Inl e | Inr min_items \<Rightarrow>
           case opts_get opts ''max_items'' of Inl e \<Rightarrow> Inl e | Inr max_items \<Rightarrow>
           case (if min_items \<noteq> JNull then num_lt (of_nat (length xs)) min_items else Inr False) of
             Inl e \<Rightarrow> Inl e
           | Inr True \<Rightarrow> Inl (ValidationError (AtLeastItems min_items))
           | Inr False \<Rightarrow>
              (case (if max_items \<noteq> JNull then num_gt (of_nat (length xs)) max_items else Inr False) of
                 Inl e \<Rightarrow> Inl e
               | Inr True \<Rightarrow> Inl (ValidationError (AtMostItems max_items))
               | Inr False \<Rightarrow> check_items item_type xs))
      | _ \<Rightarrow> Inl (ValidationError (Msg ''Must be a list.'')))"

text \<open>
  \<open>_validate_value(field, value)\<close>: \<open>Inr ()\<close> is a normal return, \<open>Inl e\<close> is the exception \<open>e\<close>
  raised. The branches are tried in the order of the source; the last line is its final
  \<open>raise\<close>.
\<close>

definition validate_value :: "FieldDefinition \<Rightarrow> json \<Rightarrow> py_exception + unit" where
  "validate_value field v =
     (let ft = field_type field; opts = opts_of field in
      if ft = TEXT \<or> ft = LONG_TEXT \<or> ft = URL then
        (if \<not> isinstance_str v then Inl (ValidationError (Msg ''Must be a string.'')) else Inr ())
      else if ft = BOOLEAN then
        (if \<not> isinstance_bool v then Inl (ValidationError (Msg ''Must be true/false.'')) else Inr ())
      else if ft = NUMBER then validate_number opts v
      else if ft = DATE \<or> ft = DATETIME then
        (if \<not> isinstance_str v
           then Inl (ValidationError (Msg ''Must be an ISO date/datetime string.''))
         else Inr ())
      else if ft = SELECT then validate_select opts v
      else if ft = MULTI_SELECT then validate_multi_select opts v
      else if ft = LIST then validate_list opts v
      else Inl (ValidationError (Msg ''Unsupported field type.'')))"

section \<open>\<open>Entry.clean\<close>\<close>

text \<open>\<open>key in self.data and self.data.get(key) not in (None, "", [])\<close>.\<close>

definition present :: "dict \<Rightarrow> string \<Rightarrow> bool" where
  "present d k = (k \<in> set (map fst d) \<and> dict_get d k \<notin> {JNull, JStr [], JList []})"

text \<open>
  The loop \<open>for f in fields\<close>, threading the dict \<open>errors\<close>; \<open>errors[key] = m\<close> replaces the
  message of a key that is there and appends a new key. Only \<open>ValidationError\<close> is caught; any
  other exception leaves the loop.
\<close>

fun clean_loop :: "FieldDefinition list \<Rightarrow> dict \<Rightarrow> (string \<times> message) list
    \<Rightarrow> py_exception + (string \<times> message) list" where
  "clean_loop [] d errors = Inr errors"
| "clean_loop (f # fs) d errors =
     (let k = label f in
      if required f \<and> \<not> present d k
        then clean_loop fs d (AList.update k (Msg ''This field is required.'') errors)
      else if \<not> present d k then clean_loop fs d errors
      else
        (case validate_value f (dict_get d k) of
           Inl (ValidationError m) \<Rightarrow> clean_loop fs d (AList.update k m errors)
         | Inl e \<Rightarrow> Inl e
         | Inr u \<Rightarrow> clean_loop fs d errors))"

text \<open>One line of standard output: the dict that \<open>print\<close> was given.\<close>

datatype printed = Printed "(string \<times> (string \<times> message) list) list"

text \<open>
  \<open>clean()\<close>: \<open>Inl e\<close> is the exception raised, \<open>Inr out\<close> a normal return after printing the lines
  \<open>out\<close>. \<open>self.data.keys()\<close> needs a dict. \<open>sorted(unknown)\<close> sorts a set of strings.
\<close>

definition clean :: "Entry \<Rightarrow> py_exception + printed list" where
  "clean self =
     (case hobby_type self of
        None \<Rightarrow> Inr []
      | Some ht \<Rightarrow>
         (let fs = fields_all ht; schema_keys = map label fs in
          case data self of
            JDict d \<Rightarrow>
              (let unknown = filter (\<lambda>k. k \<notin> set schema_keys) (map fst d) in
               if unknown \<noteq> []
                 then Inl (ValidationErrorDict
                        [(''data'', UnknownFieldKeys (sort (remdups unknown)))])
               else
                 (case clean_loop fs d [] of
                    Inl e \<Rightarrow> Inl e
                  | Inr errors \<Rightarrow>
                      if errors \<noteq> [] then Inr [Printed [(''data'', errors)]] else Inr []))
          | _ \<Rightarrow> Inl AttributeError))"

section \<open>\<open>EntrySerializer.validate\<close>\<close>

text \<open>
  \<open>validate(attrs)\<close>: \<open>tags\<close> is taken out of \<open>attrs\<close>, the entry is built and cleaned, a Django
  \<open>ValidationError\<close> is converted (\<open>message_dict\<close> when it was raised with a dict, \<open>messages\<close>
  otherwise), and \<open>tags\<close> is put back. \<open>Inr (attrs, out)\<close> is the return of \<open>attrs\<close> with the
  lines \<open>out\<close> printed on the way.
\<close>

definition validate :: "Entry \<Rightarrow> py_exception + (Entry \<times> printed list)" where
  "validate attrs =
     (let tags0 = tags attrs; attrs1 = attrs\<lparr>tags := None\<rparr> in
      case clean attrs1 of
        Inl (ValidationErrorDict ed) \<Rightarrow>
          Inl (DRFValidationError (DetailDict (map (\<lambda>(k, m). (k, [m])) ed)))
      | Inl (ValidationError m) \<Rightarrow> Inl (DRFValidationError (DetailList [m]))
      | Inl e \<Rightarrow> Inl e
      | Inr out \<Rightarrow>
          Inr ((case tags0 of None \<Rightarrow> attrs1 | Some t \<Rightarrow> attrs1\<lparr>tags := Some t\<rparr>), out))"

section \<open>Vocabulary for the properties\<close>

text \<open>
  An option is \<^emph>\<open>unset\<close> when \<open>opts.get\<close> gives \<open>None\<close> for it (the key is missing or holds
  \<open>null\<close>). \<open>numeric_or_unset\<close> is what the comparisons with \<open>min\<close>, \<open>max\<close>, \<open>min_items\<close> and
  \<open>max_items\<close> need in order not to raise \<open>TypeError\<close>; \<open>iterable_or_falsy\<close> is what the
  membership test on \<open>choices\<close> needs.
\<close>

definition numeric_or_unset :: "json \<Rightarrow> bool" where
  "numeric_or_unset v = (v = JNull \<or> num_val v \<noteq> None)"

fun iterable_or_falsy :: "json \<Rightarrow> bool" where
  "iterable_or_falsy (JList cs) = True"
| "iterable_or_falsy (JStr c) = True"
| "iterable_or_falsy (JDict kvs) = True"
| "iterable_or_falsy v = (\<not> truthy v)"

text \<open>
  \<open>min_ok minv x\<close>: the lower bound is unset, or it is a number and \<open>x\<close> is at least that
  number. \<open>max_ok maxv x\<close>: the upper bound is unset, or it is a number and \<open>x\<close> is at most
  that number.
\<close>

definition min_ok :: "json \<Rightarrow> rat \<Rightarrow> bool" where
  "min_ok minv x = (case num_val minv of None \<Rightarrow> minv = JNull | Some l \<Rightarrow> l \<le> x)"

definition max_ok :: "json \<Rightarrow> rat \<Rightarrow> bool" where
  "max_ok maxv x = (case num_val maxv of None \<Rightarrow> maxv = JNull | Some h \<Rightarrow> x \<le> h)"

text \<open>
  The options of a field are well formed when \<open>field.options or {}\<close> is a dict whose bounds
  are numbers or unset and whose \<open>choices\<close> can be searched.
\<close>

definition options_wellformed :: "FieldDefinition \<Rightarrow> bool" where
  "options_wellformed f =
     (case opts_of f of
        JDict od \<Rightarrow>
          numeric_or_unset (dict_get od ''min'') \<and> numeric_or_unset (dict_get od ''max'') \<and>
          numeric_or_unset (dict_get od ''min_items'') \<and>
          numeric_or_unset (dict_get od ''max_items'') \<and>
          iterable_or_falsy (dict_get_default od ''choices'' (JList []))
      | _ \<Rightarrow> False)"

text \<open>
  The violation, if any, that one pass of the loop body of \<open>clean\<close> finds for the field \<open>f\<close>:
  the message that it stores under the field's label.
\<close>

definition field_violation :: "FieldDefinition \<Rightarrow> dict \<Rightarrow> message option" where
  "field_violation f d =
     (if required f \<and> \<not> present d (label f) then Some (Msg ''This field is required.'')
      else if \<not> present d (label f) then None
      else (case validate_value f (dict_get d (label f)) of
              Inl (ValidationError m) \<Rightarrow> Some m
            | _ \<Rightarrow> None))"

section \<open>Example schemas\<close>

text \<open>
  A collection of movies with a required title and a required rating between 0 and 10, a
  required multi-select field, two fields that carry each other's key as their label, and
  a number field whose lower bound is a string.
\<close>

definition title_field :: FieldDefinition where
  "title_field = \<lparr>key = ''title'', label = ''title'', field_type = TEXT, required = True,
     options = JDict []\<rparr>"

definition rating_field :: FieldDefinition where
  "rating_field = \<lparr>key = ''rating'', label = ''rating'', field_type = NUMBER, required = True,
     options = JDict [(''min'', JInt 0), (''max'', JInt 10)]\<rparr>"

definition tags_field :: FieldDefinition where
  "tags_field = \<lparr>key = ''tags'', label = ''tags'', field_type = MULTI_SELECT, required = True,
     options = JDict []\<rparr>"



definition badmin_field :: FieldDefinition where
  "badmin_field = \<lparr>key = ''rating'', label = ''rating'', field_type = NUMBER, required = False,
     options = JDict [(''min'', JStr ''low'')]\<rparr>"

definition entry_of :: "FieldDefinition list \<Rightarrow> dict \<Rightarrow> Entry" where
  "entry_of fs d = \<lparr>hobby_type = Some \<lparr>name = ''Movies'', fields_all = fs\<rparr>,
     title = ''An entry'', status = ''backlog'', tags = None, data = JDict d\<rparr>"

section \<open>Properties of the type checkers\<close>

lemmas FieldType_defs =
  TEXT_def LONG_TEXT_def NUMBER_def BOOLEAN_def DATE_def DATETIME_def SELECT_def
  MULTI_SELECT_def URL_def LIST_def

lemma validate_value_NUMBER:
  "field_type f = NUMBER \<Longrightarrow> validate_value f v = validate_number (opts_of f) v"
  by (simp add: validate_value_def FieldType_defs)


lemma validate_value_SELECT:
  "field_type f = SELECT \<Longrightarrow> validate_value f v = validate_select (opts_of f) v"
  by (simp add: validate_value_def FieldType_defs)

lemma validate_value_MULTI_SELECT:
  "field_type f = MULTI_SELECT \<Longrightarrow> validate_value f v = validate_multi_select (opts_of f) v"
  by (simp add: validate_value_def FieldType_defs)

lemma validate_value_LIST:
  "field_type f = LIST \<Longrightarrow> validate_value f v = validate_list (opts_of f) v"
  by (simp add: validate_value_def FieldType_defs)


lemma isinstance_str_iff: "isinstance_str v = (\<exists>s. v = JStr s)"
  by (cases v) simp_all

lemma isinstance_list_iff: "isinstance_list v = (\<exists>xs. v = JList xs)"
  by (cases v) simp_all

lemma opts_of_update_field_type [simp]: "opts_of (f\<lparr>field_type := t\<rparr>) = opts_of f"
  by (simp add: opts_of_def)


lemma min_ok_iff: "min_ok b x = (b = JNull \<or> (\<exists>l. num_val b = Some l \<and> l \<le> x))"
  by (cases b) (simp_all add: min_ok_def)

lemma max_ok_iff: "max_ok b x = (b = JNull \<or> (\<exists>h. num_val b = Some h \<and> x \<le> h))"
  by (cases b) (simp_all add: max_ok_def)

lemma num_lt_bound:
  "numeric_or_unset b \<Longrightarrow>
     (if b \<noteq> JNull then num_lt x b else Inr False) = Inr (\<not> min_ok b x)"
  by (auto simp: numeric_or_unset_def num_lt_def min_ok_def split: option.splits)

lemma num_gt_bound:
  "numeric_or_unset b \<Longrightarrow>
     (if b \<noteq> JNull then num_gt x b else Inr False) = Inr (\<not> max_ok b x)"
  by (auto simp: numeric_or_unset_def num_gt_def max_ok_def split: option.splits)

lemma validate_number_dict:
  assumes "num_val v = Some x"
    and "numeric_or_unset (dict_get od ''min'')"
    and "numeric_or_unset (dict_get od ''max'')"
  shows "validate_number (JDict od) v =
     (if \<not> min_ok (dict_get od ''min'') x
        then Inl (ValidationError (MustBeGe (dict_get od ''min'')))
      else if \<not> max_ok (dict_get od ''max'') x
        then Inl (ValidationError (MustBeLe (dict_get od ''max'')))
      else Inr ())"
  by (simp add: validate_number_def opts_get_def assms(1)
      num_lt_bound [OF assms(2)] num_gt_bound [OF assms(3)])

lemma validate_number_not_number:
  "num_val v = None \<Longrightarrow>
     validate_number opts v = Inl (ValidationError (Msg ''Must be a number.''))"
  by (simp add: validate_number_def)

text \<open>
  C6. A number field whose \<open>min\<close> and \<open>max\<close> are numbers or unset: a numeric value \<open>x\<close> is
  accepted if and only if (\<open>min\<close> is unset or \<open>min \<le> x\<close>) and (\<open>max\<close> is unset or \<open>x \<le> max\<close>),
  the bounds being inclusive; below \<open>min\<close> it is refused with "Must be \<ge> min.", otherwise
  above \<open>max\<close> with "Must be \<le> max."; a value that is not numeric is refused with "Must be a
  number.".
\<close>

theorem number_field_range:
  assumes ft: "field_type f = NUMBER"
    and od: "opts_of f = JDict od"
    and lo: "numeric_or_unset (dict_get od ''min'')"
    and hi: "numeric_or_unset (dict_get od ''max'')"
  shows "(num_val v = Some x \<longrightarrow>
            (validate_value f v = Inr ()) =
              ((dict_get od ''min'' = JNull \<or>
                  (\<exists>l. num_val (dict_get od ''min'') = Some l \<and> l \<le> x)) \<and>
               (dict_get od ''max'' = JNull \<or>
                  (\<exists>h. num_val (dict_get od ''max'') = Some h \<and> x \<le> h))))
     \<and> (num_val v = Some x \<and> \<not> min_ok (dict_get od ''min'') x \<longrightarrow>
            validate_value f v = Inl (ValidationError (MustBeGe (dict_get od ''min''))))
     \<and> (num_val v = Some x \<and> min_ok (dict_get od ''min'') x \<and>
          \<not> max_ok (dict_get od ''max'') x \<longrightarrow>
            validate_value f v = Inl (ValidationError (MustBeLe (dict_get od ''max''))))
     \<and> (num_val v = None \<longrightarrow>
            validate_value f v = Inl (ValidationError (Msg ''Must be a number.'')))"
proof -
  have vv: "validate_value f v = validate_number (JDict od) v"
    using ft od by (simp add: validate_value_NUMBER)
  have c1: "num_val v = Some x \<longrightarrow>
            (validate_value f v = Inr ()) =
              ((dict_get od ''min'' = JNull \<or>
                  (\<exists>l. num_val (dict_get od ''min'') = Some l \<and> l \<le> x)) \<and>
               (dict_get od ''max'' = JNull \<or>
                  (\<exists>h. num_val (dict_get od ''max'') = Some h \<and> x \<le> h)))"
    unfolding vv min_ok_iff [symmetric] max_ok_iff [symmetric]
    by (simp add: validate_number_dict [OF _ lo hi])
  have c2: "num_val v = Some x \<and> \<not> min_ok (dict_get od ''min'') x \<longrightarrow>
            validate_value f v = Inl (ValidationError (MustBeGe (dict_get od ''min'')))"
    unfolding vv by (simp add: validate_number_dict [OF _ lo hi])
  have c3: "num_val v = Some x \<and> min_ok (dict_get od ''min'') x \<and>
          \<not> max_ok (dict_get od ''max'') x \<longrightarrow>
            validate_value f v = Inl (ValidationError (MustBeLe (dict_get od ''max'')))"
    unfolding vv by (simp add: validate_number_dict [OF _ lo hi])
  have c4: "num_val v = None \<longrightarrow>
            validate_value f v = Inl (ValidationError (Msg ''Must be a number.''))"
    unfolding vv by (simp add: validate_number_not_number)
  show ?thesis using c1 c2 c3 c4 by blast
qed

theorem number_field_range_witness:
  "field_type \<lparr>key = ''rating'', label = ''rating'', field_type = NUMBER, required = True,
       options = JDict [(''min'', JInt 0), (''max'', JInt 10)]\<rparr> = NUMBER
   \<and> opts_of \<lparr>key = ''rating'', label = ''rating'', field_type = NUMBER, required = True,
       options = JDict [(''min'', JInt 0), (''max'', JInt 10)]\<rparr>
       = JDict [(''min'', JInt 0), (''max'', JInt 10)]
   \<and> numeric_or_unset (dict_get [(''min'', JInt 0), (''max'', JInt 10)] ''min'')
   \<and> numeric_or_unset (dict_get [(''min'', JInt 0), (''max'', JInt 10)] ''max'')
   \<and> validate_value \<lparr>key = ''rating'', label = ''rating'', field_type = NUMBER, required = True,
       options = JDict [(''min'', JInt 0), (''max'', JInt 10)]\<rparr> (JInt 0) = Inr ()
   \<and> validate_value \<lparr>key = ''rating'', label = ''rating'', field_type = NUMBER, required = True,
       options = JDict [(''min'', JInt 0), (''max'', JInt 10)]\<rparr> (JInt 10) = Inr ()
   \<and> validate_value \<lparr>key = ''rating'', label = ''rating'', field_type = NUMBER, required = True,
       options = JDict [(''min'', JInt 0), (''max'', JInt 10)]\<rparr>
       (JFloat (- 5764607523034235 / 576460752303423488))
       = Inl (ValidationError (MustBeGe (JInt 0)))
   \<and> validate_value \<lparr>key = ''rating'', label = ''rating'', field_type = NUMBER, required = True,
       options = JDict [(''min'', JInt 0), (''max'', JInt 10)]\<rparr>
       (JFloat (5635129033747333 / 562949953421312))
       = Inl (ValidationError (MustBeLe (JInt 10)))
   \<and> validate_value \<lparr>key = ''rating'', label = ''rating'', field_type = NUMBER, required = True,
       options = JDict [(''min'', JInt 0), (''max'', JInt 10)]\<rparr> (JStr ''5'')
       = Inl (ValidationError (Msg ''Must be a number.''))"
proof -
  let ?f = "\<lparr>key = ''rating'', label = ''rating'', field_type = NUMBER, required = True,
       options = JDict [(''min'', JInt 0), (''max'', JInt 10)]\<rparr>"
  let ?od = "[(''min'', JInt 0), (''max'', JInt 10)]"
  have a: "field_type ?f = NUMBER" by simp
  have b: "opts_of ?f = JDict ?od" by (simp add: opts_of_def)
  have c: "numeric_or_unset (dict_get ?od ''min'')"
    by (simp add: numeric_or_unset_def dict_get_def)
  have d: "numeric_or_unset (dict_get ?od ''max'')"
    by (simp add: numeric_or_unset_def dict_get_def)
  note T = number_field_range [OF a b c d]
  have e1: "validate_value ?f (JInt 0) = Inr ()"
    using T [of "JInt 0" 0] by (simp add: dict_get_def)
  have e2: "validate_value ?f (JInt 10) = Inr ()"
    using T [of "JInt 10" 10] by (simp add: dict_get_def)
  have e3: "validate_value ?f (JFloat (- 5764607523034235 / 576460752303423488))
       = Inl (ValidationError (MustBeGe (JInt 0)))"
    using T [of "JFloat (- 5764607523034235 / 576460752303423488)"
        "- 5764607523034235 / 576460752303423488"]
    by (simp add: dict_get_def min_ok_def)
  have e4: "validate_value ?f (JFloat (5635129033747333 / 562949953421312))
       = Inl (ValidationError (MustBeLe (JInt 10)))"
    using T [of "JFloat (5635129033747333 / 562949953421312)"
        "5635129033747333 / 562949953421312"]
    by (simp add: dict_get_def min_ok_def max_ok_def)
  have e5: "validate_value ?f (JStr ''5'') = Inl (ValidationError (Msg ''Must be a number.''))"
    using T [of "JStr ''5''"] by simp
  show ?thesis using a b c d e1 e2 e3 e4 e5 by blast
qed

lemma check_items_ok:
  "(check_items it xs = Inr ()) =
     ((it = JStr ''text'' \<longrightarrow> list_all isinstance_str xs) \<and>
      (it = JStr ''number'' \<longrightarrow> list_all isinstance_number xs) \<and>
      (it = JStr ''boolean'' \<longrightarrow> list_all isinstance_bool xs))"
  by (induction xs) auto

lemma check_items_text:
  "\<not> list_all isinstance_str xs \<Longrightarrow>
     check_items (JStr ''text'') xs = Inl (ValidationError (Msg ''All items must be strings.''))"
  by (induction xs) auto

lemma check_items_number:
  "\<not> list_all isinstance_number xs \<Longrightarrow>
     check_items (JStr ''number'') xs = Inl (ValidationError (Msg ''All items must be numbers.''))"
  by (induction xs) auto

lemma check_items_boolean:
  "\<not> list_all isinstance_bool xs \<Longrightarrow>
     check_items (JStr ''boolean'') xs
       = Inl (ValidationError (Msg ''All items must be booleans.''))"
  by (induction xs) auto

lemma validate_list_dict:
  assumes "numeric_or_unset (dict_get od ''min_items'')"
    and "numeric_or_unset (dict_get od ''max_items'')"
  shows "validate_list (JDict od) (JList xs) =
     (if \<not> min_ok (dict_get od ''min_items'') (of_nat (length xs))
        then Inl (ValidationError (AtLeastItems (dict_get od ''min_items'')))
      else if \<not> max_ok (dict_get od ''max_items'') (of_nat (length xs))
        then Inl (ValidationError (AtMostItems (dict_get od ''max_items'')))
      else check_items (dict_get_default od ''item_type'' (JStr ''text'')) xs)"
  by (simp add: validate_list_def opts_get_def opts_get_default_def
      num_lt_bound [OF assms(1)] num_gt_bound [OF assms(2)])

lemma validate_list_not_list:
  "\<not> isinstance_list v \<Longrightarrow> validate_list opts v = Inl (ValidationError (Msg ''Must be a list.''))"
  by (cases v) (simp_all add: validate_list_def)

text \<open>
  C7. A list field whose \<open>min_items\<close> and \<open>max_items\<close> are numbers or unset: a value that is
  not a list gives "Must be a list."; a list is accepted if and only if its length is at
  least \<open>min_items\<close> and at most \<open>max_items\<close> (each when set, bounds inclusive) and, for the
  item type \<open>text\<close> (the default when the option \<open>item_type\<close> is missing), \<open>number\<close> or
  \<open>boolean\<close>, every element is a string, a number or a boolean. A list that is too short gives
  "Must contain at least min_items items.", otherwise one that is too long gives "Must contain
  at most max_items items.", otherwise an element of the wrong type gives the message of the
  item type.
\<close>

theorem list_field_constraints:
  assumes ft: "field_type f = LIST"
    and od: "opts_of f = JDict od"
    and lo: "numeric_or_unset (dict_get od ''min_items'')"
    and hi: "numeric_or_unset (dict_get od ''max_items'')"
  shows "(\<not> isinstance_list v \<longrightarrow>
            validate_value f v = Inl (ValidationError (Msg ''Must be a list.'')))
     \<and> (validate_value f (JList xs) = Inr ()) =
          ((dict_get od ''min_items'' = JNull \<or>
              (\<exists>l. num_val (dict_get od ''min_items'') = Some l \<and> l \<le> of_nat (length xs))) \<and>
           (dict_get od ''max_items'' = JNull \<or>
              (\<exists>h. num_val (dict_get od ''max_items'') = Some h \<and> of_nat (length xs) \<le> h)) \<and>
           (dict_get_default od ''item_type'' (JStr ''text'') = JStr ''text''
              \<longrightarrow> list_all isinstance_str xs) \<and>
           (dict_get_default od ''item_type'' (JStr ''text'') = JStr ''number''
              \<longrightarrow> list_all isinstance_number xs) \<and>
           (dict_get_default od ''item_type'' (JStr ''text'') = JStr ''boolean''
              \<longrightarrow> list_all isinstance_bool xs))
     \<and> (\<not> min_ok (dict_get od ''min_items'') (of_nat (length xs)) \<longrightarrow>
            validate_value f (JList xs)
              = Inl (ValidationError (AtLeastItems (dict_get od ''min_items''))))
     \<and> (min_ok (dict_get od ''min_items'') (of_nat (length xs)) \<and>
          \<not> max_ok (dict_get od ''max_items'') (of_nat (length xs)) \<longrightarrow>
            validate_value f (JList xs)
              = Inl (ValidationError (AtMostItems (dict_get od ''max_items''))))
     \<and> (min_ok (dict_get od ''min_items'') (of_nat (length xs)) \<and>
          max_ok (dict_get od ''max_items'') (of_nat (length xs)) \<longrightarrow>
            (dict_get_default od ''item_type'' (JStr ''text'') = JStr ''text'' \<and>
               \<not> list_all isinstance_str xs \<longrightarrow>
             validate_value f (JList xs)
               = Inl (ValidationError (Msg ''All items must be strings.''))) \<and>
            (dict_get_default od ''item_type'' (JStr ''text'') = JStr ''number'' \<and>
               \<not> list_all isinstance_number xs \<longrightarrow>
             validate_value f (JList xs)
               = Inl (ValidationError (Msg ''All items must be numbers.''))) \<and>
            (dict_get_default od ''item_type'' (JStr ''text'') = JStr ''boolean'' \<and>
               \<not> list_all isinstance_bool xs \<longrightarrow>
             validate_value f (JList xs)
               = Inl (ValidationError (Msg ''All items must be booleans.''))))
     \<and> (map_of od ''item_type'' = None \<longrightarrow>
            dict_get_default od ''item_type'' (JStr ''text'') = JStr ''text'')"
proof -
  have vv: "validate_value f w = validate_list (JDict od) w" for w
    using ft od by (simp add: validate_value_LIST)
  note vl = validate_list_dict [OF lo hi, of xs]
  have c1: "\<not> isinstance_list v \<longrightarrow>
            validate_value f v = Inl (ValidationError (Msg ''Must be a list.''))"
    by (simp add: vv validate_list_not_list)
  have c2: "(validate_value f (JList xs) = Inr ()) =
          ((dict_get od ''min_items'' = JNull \<or>
              (\<exists>l. num_val (dict_get od ''min_items'') = Some l \<and> l \<le> of_nat (length xs))) \<and>
           (dict_get od ''max_items'' = JNull \<or>
              (\<exists>h. num_val (dict_get od ''max_items'') = Some h \<and> of_nat (length xs) \<le> h)) \<and>
           (dict_get_default od ''item_type'' (JStr ''text'') = JStr ''text''
              \<longrightarrow> list_all isinstance_str xs) \<and>
           (dict_get_default od ''item_type'' (JStr ''text'') = JStr ''number''
              \<longrightarrow> list_all isinstance_number xs) \<and>
           (dict_get_default od ''item_type'' (JStr ''text'') = JStr ''boolean''
              \<longrightarrow> list_all isinstance_bool xs))"
    unfolding vv vl min_ok_iff [symmetric] max_ok_iff [symmetric]
    by (simp add: check_items_ok)
  have c3: "\<not> min_ok (dict_get od ''min_items'') (of_nat (length xs)) \<longrightarrow>
            validate_value f (JList xs)
              = Inl (ValidationError (AtLeastItems (dict_get od ''min_items'')))"
    unfolding vv vl by simp
  have c4: "min_ok (dict_get od ''min_items'') (of_nat (length xs)) \<and>
          \<not> max_ok (dict_get od ''max_items'') (of_nat (length xs)) \<longrightarrow>
            validate_value f (JList xs)
              = Inl (ValidationError (AtMostItems (dict_get od ''max_items'')))"
    unfolding vv vl by simp
  have c5: "min_ok (dict_get od ''min_items'') (of_nat (length xs)) \<and>
          max_ok (dict_get od ''max_items'') (of_nat (length xs)) \<longrightarrow>
            (dict_get_default od ''item_type'' (JStr ''text'') = JStr ''text'' \<and>
               \<not> list_all isinstance_str xs \<longrightarrow>
             validate_value f (JList xs)
               = Inl (ValidationError (Msg ''All items must be strings.''))) \<and>
            (dict_get_default od ''item_type'' (JStr ''text'') = JStr ''number'' \<and>
               \<not> list_all isinstance_number xs \<longrightarrow>
             validate_value f (JList xs)
               = Inl (ValidationError (Msg ''All items must be numbers.''))) \<and>
            (dict_get_default od ''item_type'' (JStr ''text'') = JStr ''boolean'' \<and>
               \<not> list_all isinstance_bool xs \<longrightarrow>
             validate_value f (JList xs)
               = Inl (ValidationError (Msg ''All items must be booleans.'')))"
    unfolding vv vl
    by (auto simp: check_items_text check_items_number check_items_boolean)
  have c6: "map_of od ''item_type'' = None \<longrightarrow>
            dict_get_default od ''item_type'' (JStr ''text'') = JStr ''text''"
    by (simp add: dict_get_default_def)
  show ?thesis using c1 c2 c3 c4 c5 c6 by blast
qed

theorem list_field_constraints_witness:
  "field_type \<lparr>key = ''laps'', label = ''laps'', field_type = LIST, required = False,
       options = JDict [(''item_type'', JStr ''number''), (''min_items'', JInt 1),
         (''max_items'', JInt 3)]\<rparr> = LIST
   \<and> opts_of \<lparr>key = ''laps'', label = ''laps'', field_type = LIST, required = False,
       options = JDict [(''item_type'', JStr ''number''), (''min_items'', JInt 1),
         (''max_items'', JInt 3)]\<rparr>
       = JDict [(''item_type'', JStr ''number''), (''min_items'', JInt 1),
           (''max_items'', JInt 3)]
   \<and> numeric_or_unset (dict_get [(''item_type'', JStr ''number''), (''min_items'', JInt 1),
         (''max_items'', JInt 3)] ''min_items'')
   \<and> numeric_or_unset (dict_get [(''item_type'', JStr ''number''), (''min_items'', JInt 1),
         (''max_items'', JInt 3)] ''max_items'')
   \<and> validate_value \<lparr>key = ''laps'', label = ''laps'', field_type = LIST, required = False,
       options = JDict [(''item_type'', JStr ''number''), (''min_items'', JInt 1),
         (''max_items'', JInt 3)]\<rparr> (JList [JInt 1, JInt 2]) = Inr ()
   \<and> validate_value \<lparr>key = ''laps'', label = ''laps'', field_type = LIST, required = False,
       options = JDict [(''item_type'', JStr ''number''), (''min_items'', JInt 1),
         (''max_items'', JInt 3)]\<rparr> (JList [])
       = Inl (ValidationError (AtLeastItems (JInt 1)))
   \<and> validate_value \<lparr>key = ''laps'', label = ''laps'', field_type = LIST, required = False,
       options = JDict [(''item_type'', JStr ''number''), (''min_items'', JInt 1),
         (''max_items'', JInt 3)]\<rparr> (JList [JInt 1, JInt 2, JInt 3, JInt 4])
       = Inl (ValidationError (AtMostItems (JInt 3)))
   \<and> validate_value \<lparr>key = ''laps'', label = ''laps'', field_type = LIST, required = False,
       options = JDict [(''item_type'', JStr ''number''), (''min_items'', JInt 1),
         (''max_items'', JInt 3)]\<rparr> (JList [JStr ''a''])
       = Inl (ValidationError (Msg ''All items must be numbers.''))
   \<and> validate_value \<lparr>key = ''laps'', label = ''laps'', field_type = LIST, required = False,
       options = JDict [(''item_type'', JStr ''number''), (''min_items'', JInt 1),
         (''max_items'', JInt 3)]\<rparr> (JStr ''a'')
       = Inl (ValidationError (Msg ''Must be a list.''))"
proof -
  let ?od = "[(''item_type'', JStr ''number''), (''min_items'', JInt 1),
      (''max_items'', JInt 3)]"
  let ?f = "\<lparr>key = ''laps'', label = ''laps'', field_type = LIST, required = False,
       options = JDict ?od\<rparr>"
  have a: "field_type ?f = LIST" by simp
  have b: "opts_of ?f = JDict ?od" by (simp add: opts_of_def)
  have c: "numeric_or_unset (dict_get ?od ''min_items'')"
    by (simp add: numeric_or_unset_def dict_get_def)
  have d: "numeric_or_unset (dict_get ?od ''max_items'')"
    by (simp add: numeric_or_unset_def dict_get_def)
  note T = list_field_constraints [OF a b c d]
  have e1: "validate_value ?f (JList [JInt 1, JInt 2]) = Inr ()"
    using T [of _ "[JInt 1, JInt 2]"]
    by (simp add: dict_get_def dict_get_default_def isinstance_number_def)
  have e2: "validate_value ?f (JList []) = Inl (ValidationError (AtLeastItems (JInt 1)))"
    using T [of _ "[]"] by (simp add: dict_get_def min_ok_def)
  have e3: "validate_value ?f (JList [JInt 1, JInt 2, JInt 3, JInt 4])
      = Inl (ValidationError (AtMostItems (JInt 3)))"
    using T [of _ "[JInt 1, JInt 2, JInt 3, JInt 4]"]
    by (simp add: dict_get_def min_ok_def max_ok_def)
  have e4: "validate_value ?f (JList [JStr ''a''])
      = Inl (ValidationError (Msg ''All items must be numbers.''))"
    using T [of _ "[JStr ''a'']"]
    by (simp add: dict_get_def dict_get_default_def min_ok_def max_ok_def
        isinstance_number_def)
  have e5: "validate_value ?f (JStr ''a'') = Inl (ValidationError (Msg ''Must be a list.''))"
    using T [of "JStr ''a''"] by simp
  show ?thesis using a b c d e1 e2 e3 e4 e5 by blast
qed

lemma strings_of_list_Some: "(strings_of (JList xs) = Some ss) = (xs = map JStr ss)"
proof (induction xs arbitrary: ss)
  case Nil
  then show ?case by auto
next
  case (Cons x xs)
  show ?case
  proof (cases "isinstance_str x")
    case True
    then obtain z where x: "x = JStr z" by (auto simp: isinstance_str_iff)
    have "(strings_of (JList (x # xs)) = Some ss) =
        (\<exists>ss'. strings_of (JList xs) = Some ss' \<and> ss = z # ss')"
      unfolding x by (auto split: option.splits)
    also have "\<dots> = (\<exists>ss'. xs = map JStr ss' \<and> ss = z # ss')"
      by (simp add: Cons.IH)
    also have "\<dots> = (x # xs = map JStr ss)"
      unfolding x by (cases ss) auto
    finally show ?thesis .
  next
    case False
    then have "strings_of (JList (x # xs)) = None" by (cases x) simp_all
    moreover from False have "x # xs \<noteq> map JStr ss" by (cases ss) auto
    ultimately show ?thesis by simp
  qed
qed

lemma strings_of_list_None: "(strings_of (JList xs) = None) = (\<not> list_all isinstance_str xs)"
proof (induction xs)
  case Nil
  then show ?case by simp
next
  case (Cons x xs)
  then show ?case by (cases x) (auto split: option.splits)
qed

lemma strings_of_not_list: "\<not> isinstance_list v \<Longrightarrow> strings_of v = None"
  by (cases v) simp_all

lemma any_not_in_list: "any_not_in ss (JList cs) = Inr (\<exists>s\<in>set ss. JStr s \<notin> set cs)"
  by (induction ss) auto

lemma validate_select_list:
  assumes "dict_get_default od ''choices'' (JList []) = JList cs \<or>
           (dict_get_default od ''choices'' (JList []) = JNull \<and> cs = [])"
  shows "validate_select (JDict od) v =
     (case v of
        JStr s \<Rightarrow> if cs = [] \<or> JStr s \<in> set cs then Inr ()
                  else Inl (ValidationError (Msg ''Invalid choice.''))
      | _ \<Rightarrow> Inl (ValidationError (Msg ''Must be a string.'')))"
  using assms
  by (auto simp: validate_select_def opts_get_default_def split: json.splits)

lemma validate_multi_select_list:
  assumes "dict_get_default od ''choices'' (JList []) = JList cs \<or>
           (dict_get_default od ''choices'' (JList []) = JNull \<and> cs = [])"
  shows "validate_multi_select (JDict od) v =
     (case strings_of v of
        None \<Rightarrow> Inl (ValidationError (Msg ''Must be a list of strings.''))
      | Some ss \<Rightarrow> if cs = [] \<or> (\<forall>s\<in>set ss. JStr s \<in> set cs) then Inr ()
                   else Inl (ValidationError (Msg ''Contains invalid choice(s).'')))"
  using assms
  by (auto simp: validate_multi_select_def opts_get_default_def any_not_in_list
      split: option.splits bool.splits)

text \<open>
  C8. A select or multi-select field whose \<open>choices\<close> is a list \<open>cs\<close> (or is missing or
  \<open>null\<close>, which behaves as the empty list). Select: the value is accepted if and only if it is
  a string and \<open>cs\<close> is empty or contains it; a value that is not a string gives "Must be a
  string.", a string outside a non-empty \<open>cs\<close> gives "Invalid choice.". Multi-select: the
  value is accepted if and only if it is a list of strings and \<open>cs\<close> is empty or contains every
  element; anything that is not a list of strings gives "Must be a list of strings.", a list
  of strings with an element outside a non-empty \<open>cs\<close> gives "Contains invalid choice(s).".
\<close>

theorem select_field_choices:
  assumes od: "opts_of f = JDict od"
    and ch: "dict_get_default od ''choices'' (JList []) = JList cs \<or>
             (dict_get_default od ''choices'' (JList []) = JNull \<and> cs = [])"
  shows "(field_type f = SELECT \<longrightarrow>
            (validate_value f v = Inr ()) =
              (\<exists>s. v = JStr s \<and> (cs = [] \<or> JStr s \<in> set cs)))
     \<and> (field_type f = SELECT \<and> \<not> isinstance_str v \<longrightarrow>
            validate_value f v = Inl (ValidationError (Msg ''Must be a string.'')))
     \<and> (field_type f = SELECT \<and> cs \<noteq> [] \<and> JStr s \<notin> set cs \<longrightarrow>
            validate_value f (JStr s) = Inl (ValidationError (Msg ''Invalid choice.'')))
     \<and> (field_type f = MULTI_SELECT \<longrightarrow>
            (validate_value f v = Inr ()) =
              (\<exists>xs. v = JList xs \<and> list_all isinstance_str xs \<and>
                 (cs = [] \<or> set xs \<subseteq> set cs)))
     \<and> (field_type f = MULTI_SELECT \<and> \<not> isinstance_list v \<longrightarrow>
            validate_value f v = Inl (ValidationError (Msg ''Must be a list of strings.'')))
     \<and> (field_type f = MULTI_SELECT \<and> \<not> list_all isinstance_str xs \<longrightarrow>
            validate_value f (JList xs)
              = Inl (ValidationError (Msg ''Must be a list of strings.'')))
     \<and> (field_type f = MULTI_SELECT \<and> list_all isinstance_str xs \<and> cs \<noteq> [] \<and>
          \<not> set xs \<subseteq> set cs \<longrightarrow>
            validate_value f (JList xs)
              = Inl (ValidationError (Msg ''Contains invalid choice(s).'')))"
proof -
  note vs = validate_select_list [OF ch]
  note vm = validate_multi_select_list [OF ch]
  have s1: "field_type f = SELECT \<longrightarrow>
            (validate_value f v = Inr ()) =
              (\<exists>s. v = JStr s \<and> (cs = [] \<or> JStr s \<in> set cs))"
    using od by (auto simp: validate_value_SELECT vs split: json.splits)
  have s2: "field_type f = SELECT \<and> \<not> isinstance_str v \<longrightarrow>
            validate_value f v = Inl (ValidationError (Msg ''Must be a string.''))"
    using od by (cases v) (auto simp: validate_value_SELECT vs)
  have s3: "field_type f = SELECT \<and> cs \<noteq> [] \<and> JStr s \<notin> set cs \<longrightarrow>
            validate_value f (JStr s) = Inl (ValidationError (Msg ''Invalid choice.''))"
    using od by (auto simp: validate_value_SELECT vs)
  have sub: "(\<forall>s\<in>set ss. JStr s \<in> set cs) = (set (map JStr ss) \<subseteq> set cs)" for ss
    by auto
  have all_str: "list_all isinstance_str (map JStr ss)" for ss
    by (induction ss) auto
  have m1: "field_type f = MULTI_SELECT \<longrightarrow>
            (validate_value f v = Inr ()) =
              (\<exists>xs. v = JList xs \<and> list_all isinstance_str xs \<and>
                 (cs = [] \<or> set xs \<subseteq> set cs))"
  proof (cases v)
    case (JList xs)
    show ?thesis
    proof (cases "strings_of (JList xs)")
      case None
      then have "\<not> list_all isinstance_str xs" by (simp add: strings_of_list_None)
      then show ?thesis
        using od JList None by (simp add: validate_value_MULTI_SELECT vm)
    next
      case (Some ss)
      then have xs: "xs = map JStr ss" by (simp add: strings_of_list_Some)
      show ?thesis
        using od JList Some all_str [of ss] sub [of ss]
        by (simp add: validate_value_MULTI_SELECT vm xs)
    qed
  qed (use od in \<open>simp_all add: validate_value_MULTI_SELECT vm\<close>)
  have m2: "field_type f = MULTI_SELECT \<and> \<not> isinstance_list v \<longrightarrow>
            validate_value f v = Inl (ValidationError (Msg ''Must be a list of strings.''))"
    using od by (auto simp: validate_value_MULTI_SELECT vm strings_of_not_list)
  have m3: "field_type f = MULTI_SELECT \<and> \<not> list_all isinstance_str xs \<longrightarrow>
            validate_value f (JList xs)
              = Inl (ValidationError (Msg ''Must be a list of strings.''))"
    using od strings_of_list_None [of xs]
    by (auto simp: validate_value_MULTI_SELECT vm)
  have m4: "field_type f = MULTI_SELECT \<and> list_all isinstance_str xs \<and> cs \<noteq> [] \<and>
          \<not> set xs \<subseteq> set cs \<longrightarrow>
            validate_value f (JList xs)
              = Inl (ValidationError (Msg ''Contains invalid choice(s).''))"
  proof (cases "strings_of (JList xs)")
    case None
    then show ?thesis by (simp add: strings_of_list_None)
  next
    case (Some ss)
    then have xs: "xs = map JStr ss" by (simp add: strings_of_list_Some)
    show ?thesis
      using od Some sub [of ss] by (auto simp: validate_value_MULTI_SELECT vm xs)
  qed
  show ?thesis using s1 s2 s3 m1 m2 m3 m4 by blast
qed

theorem select_field_choices_witness:
  "opts_of \<lparr>key = ''state'', label = ''state'', field_type = SELECT, required = False,
       options = JDict [(''choices'',
         JList [JStr ''to_watch'', JStr ''watching'', JStr ''watched''])]\<rparr>
     = JDict [(''choices'', JList [JStr ''to_watch'', JStr ''watching'', JStr ''watched''])]
   \<and> (dict_get_default
         [(''choices'', JList [JStr ''to_watch'', JStr ''watching'', JStr ''watched''])]
         ''choices'' (JList [])
        = JList [JStr ''to_watch'', JStr ''watching'', JStr ''watched''] \<or>
       (dict_get_default
         [(''choices'', JList [JStr ''to_watch'', JStr ''watching'', JStr ''watched''])]
         ''choices'' (JList []) = JNull \<and>
        [JStr ''to_watch'', JStr ''watching'', JStr ''watched''] = []))
   \<and> validate_value \<lparr>key = ''state'', label = ''state'', field_type = SELECT,
       required = False, options = JDict [(''choices'',
         JList [JStr ''to_watch'', JStr ''watching'', JStr ''watched''])]\<rparr>
       (JStr ''watching'') = Inr ()
   \<and> validate_value \<lparr>key = ''state'', label = ''state'', field_type = SELECT,
       required = False, options = JDict [(''choices'',
         JList [JStr ''to_watch'', JStr ''watching'', JStr ''watched''])]\<rparr>
       (JStr ''paused'') = Inl (ValidationError (Msg ''Invalid choice.''))
   \<and> validate_value \<lparr>key = ''state'', label = ''state'', field_type = SELECT,
       required = False, options = JDict [(''choices'',
         JList [JStr ''to_watch'', JStr ''watching'', JStr ''watched''])]\<rparr>
       (JInt 3) = Inl (ValidationError (Msg ''Must be a string.''))
   \<and> validate_value \<lparr>key = ''state'', label = ''state'', field_type = MULTI_SELECT,
       required = False, options = JDict [(''choices'',
         JList [JStr ''to_watch'', JStr ''watching'', JStr ''watched''])]\<rparr>
       (JList [JStr ''watched'', JStr ''to_watch'']) = Inr ()
   \<and> validate_value \<lparr>key = ''state'', label = ''state'', field_type = MULTI_SELECT,
       required = False, options = JDict [(''choices'',
         JList [JStr ''to_watch'', JStr ''watching'', JStr ''watched''])]\<rparr>
       (JList [JStr ''watched'', JStr ''paused''])
       = Inl (ValidationError (Msg ''Contains invalid choice(s).''))
   \<and> validate_value \<lparr>key = ''state'', label = ''state'', field_type = MULTI_SELECT,
       required = False, options = JDict [(''choices'',
         JList [JStr ''to_watch'', JStr ''watching'', JStr ''watched''])]\<rparr>
       (JList [JStr ''watched'', JInt 1])
       = Inl (ValidationError (Msg ''Must be a list of strings.''))"
proof -
  let ?cs = "[JStr ''to_watch'', JStr ''watching'', JStr ''watched'']"
  let ?od = "[(''choices'', JList ?cs)]"
  let ?f = "\<lparr>key = ''state'', label = ''state'', field_type = SELECT, required = False,
       options = JDict ?od\<rparr>"
  let ?g = "\<lparr>key = ''state'', label = ''state'', field_type = MULTI_SELECT, required = False,
       options = JDict ?od\<rparr>"
  have a: "opts_of ?f = JDict ?od" by (simp add: opts_of_def)
  have a': "opts_of ?g = JDict ?od" by (simp add: opts_of_def)
  have b: "dict_get_default ?od ''choices'' (JList []) = JList ?cs \<or>
      (dict_get_default ?od ''choices'' (JList []) = JNull \<and> ?cs = [])"
    by (simp add: dict_get_default_def)
  note S = select_field_choices [OF a b]
  note M = select_field_choices [OF a' b]
  have e1: "validate_value ?f (JStr ''watching'') = Inr ()"
    using S [of "JStr ''watching''"] by (simp add: SELECT_def)
  have e2: "validate_value ?f (JStr ''paused'') = Inl (ValidationError (Msg ''Invalid choice.''))"
    using S [of _ "''paused''"] by (simp add: SELECT_def)
  have e3: "validate_value ?f (JInt 3) = Inl (ValidationError (Msg ''Must be a string.''))"
    using S [of "JInt 3"] by (simp add: SELECT_def)
  have e4: "validate_value ?g (JList [JStr ''watched'', JStr ''to_watch'']) = Inr ()"
    using M [of "JList [JStr ''watched'', JStr ''to_watch'']"] by (simp add: MULTI_SELECT_def)
  have e5: "validate_value ?g (JList [JStr ''watched'', JStr ''paused''])
      = Inl (ValidationError (Msg ''Contains invalid choice(s).''))"
    using M [of _ _ "[JStr ''watched'', JStr ''paused'']"] by (simp add: MULTI_SELECT_def)
  have e6: "validate_value ?g (JList [JStr ''watched'', JInt 1])
      = Inl (ValidationError (Msg ''Must be a list of strings.''))"
    using M [of _ _ "[JStr ''watched'', JInt 1]"] by (simp add: MULTI_SELECT_def)
  show ?thesis using a b e1 e2 e3 e4 e5 e6 by blast
qed

section \<open>Properties of \<open>clean\<close> and \<open>validate\<close>\<close>

lemma check_items_result:
  "check_items it xs = Inr () \<or> (\<exists>m. check_items it xs = Inl (ValidationError m))"
  by (induction xs) auto

lemma any_not_in_iterable:
  "iterable_or_falsy c \<Longrightarrow> truthy c \<Longrightarrow> \<exists>b. any_not_in ss c = Inr b"
  by (induction ss) (cases c; auto)+

lemma py_in_iterable:
  "iterable_or_falsy c \<Longrightarrow> truthy c \<Longrightarrow> \<exists>b. py_in s c = Inr b"
  by (cases c) auto

lemma validate_value_wellformed:
  assumes "options_wellformed f"
  shows "validate_value f v = Inr () \<or> (\<exists>m. validate_value f v = Inl (ValidationError m))"
proof -
  from assms obtain od where od: "opts_of f = JDict od"
    and mn: "numeric_or_unset (dict_get od ''min'')"
    and mx: "numeric_or_unset (dict_get od ''max'')"
    and mni: "numeric_or_unset (dict_get od ''min_items'')"
    and mxi: "numeric_or_unset (dict_get od ''max_items'')"
    and ch: "iterable_or_falsy (dict_get_default od ''choices'' (JList []))"
    by (auto simp: options_wellformed_def split: json.splits)
  have num: "validate_number (JDict od) v = Inr () \<or>
      (\<exists>m. validate_number (JDict od) v = Inl (ValidationError m))"
  proof (cases "num_val v")
    case None
    then show ?thesis by (simp add: validate_number_not_number)
  next
    case (Some x)
    then show ?thesis by (simp add: validate_number_dict [OF Some mn mx])
  qed
  have lst: "validate_list (JDict od) v = Inr () \<or>
      (\<exists>m. validate_list (JDict od) v = Inl (ValidationError m))"
  proof (cases "isinstance_list v")
    case False
    then show ?thesis by (simp add: validate_list_not_list)
  next
    case True
    then obtain xs where "v = JList xs" by (auto simp: isinstance_list_iff)
    then show ?thesis
      using check_items_result [of "dict_get_default od ''item_type'' (JStr ''text'')" xs]
      by (auto simp: validate_list_dict [OF mni mxi])
  qed
  have sel: "validate_select (JDict od) v = Inr () \<or>
      (\<exists>m. validate_select (JDict od) v = Inl (ValidationError m))"
  proof (cases "truthy (dict_get_default od ''choices'' (JList []))")
    case False
    then show ?thesis
      by (auto simp: validate_select_def opts_get_default_def split: json.splits)
  next
    case True
    show ?thesis
    proof (cases v)
      case (JStr s)
      from py_in_iterable [OF ch True, of s] obtain b
        where "py_in s (dict_get_default od ''choices'' (JList [])) = Inr b" by blast
      then show ?thesis
        using True JStr by (cases b) (simp_all add: validate_select_def opts_get_default_def)
    qed (simp_all add: validate_select_def opts_get_default_def)
  qed
  have msel: "validate_multi_select (JDict od) v = Inr () \<or>
      (\<exists>m. validate_multi_select (JDict od) v = Inl (ValidationError m))"
  proof (cases "strings_of v")
    case None
    then show ?thesis by (simp add: validate_multi_select_def opts_get_default_def)
  next
    case (Some ss)
    show ?thesis
    proof (cases "truthy (dict_get_default od ''choices'' (JList []))")
      case False
      then show ?thesis
        using Some by (simp add: validate_multi_select_def opts_get_default_def)
    next
      case True
      from any_not_in_iterable [OF ch True, of ss] obtain b
        where "any_not_in ss (dict_get_default od ''choices'' (JList [])) = Inr b" by blast
      then show ?thesis
        using True Some
        by (cases b) (simp_all add: validate_multi_select_def opts_get_default_def)
    qed
  qed
  show ?thesis
    using num lst sel msel unfolding validate_value_def od Let_def
    by (simp only: split: if_splits) auto
qed

lemma clean_loop_Cons_wellformed:
  assumes "options_wellformed f"
  shows "clean_loop (f # fs) d errors =
     clean_loop fs d
       (case field_violation f d of None \<Rightarrow> errors
        | Some m \<Rightarrow> AList.update (label f) m errors)"
  using validate_value_wellformed [OF assms, of "dict_get d (label f)"]
  by (auto simp: field_violation_def Let_def)


lemma clean_loop_wellformed:
  assumes "\<forall>f\<in>set fs. options_wellformed f" and "distinct (map fst errors)"
  shows "\<exists>R. clean_loop fs d errors = Inr R \<and> distinct (map fst R) \<and>
      fst ` set R = fst ` set errors \<union> {label f |f. f \<in> set fs \<and> field_violation f d \<noteq> None} \<and>
      (\<forall>k m. map_of R k = Some m \<longrightarrow>
         map_of errors k = Some m \<or>
         (\<exists>f\<in>set fs. label f = k \<and> field_violation f d = Some m))"
  using assms
proof (induction fs arbitrary: errors)
  case Nil
  then show ?case by simp
next
  case (Cons f fs)
  let ?E = "case field_violation f d of None \<Rightarrow> errors
        | Some m \<Rightarrow> AList.update (label f) m errors"
  have wf: "options_wellformed f" and wfs: "\<forall>g\<in>set fs. options_wellformed g"
    using Cons.prems(1) by auto
  have dE: "distinct (map fst ?E)"
    using Cons.prems(2) by (auto simp: AList.distinct_update split: option.splits)
  from Cons.IH [OF wfs dE] obtain R where R: "clean_loop fs d ?E = Inr R"
    and dR: "distinct (map fst R)"
    and kR: "fst ` set R = fst ` set ?E \<union>
        {label g |g. g \<in> set fs \<and> field_violation g d \<noteq> None}"
    and mR: "\<forall>k m. map_of R k = Some m \<longrightarrow>
         map_of ?E k = Some m \<or> (\<exists>g\<in>set fs. label g = k \<and> field_violation g d = Some m)"
    by blast
  have 1: "clean_loop (f # fs) d errors = Inr R"
    by (simp only: clean_loop_Cons_wellformed [OF wf] R)
  have 2: "fst ` set R = fst ` set errors \<union>
      {label g |g. g \<in> set (f # fs) \<and> field_violation g d \<noteq> None}"
    unfolding kR by (cases "field_violation f d") (auto simp: AList.dom_update)
  have 3: "map_of errors k = Some m \<or>
         (\<exists>g\<in>set (f # fs). label g = k \<and> field_violation g d = Some m)"
    if "map_of R k = Some m" for k m
  proof -
    from mR that have "map_of ?E k = Some m \<or>
        (\<exists>g\<in>set fs. label g = k \<and> field_violation g d = Some m)" by blast
    then show ?thesis
      by (cases "field_violation f d") (auto simp: AList.update_conv' split: if_splits)
  qed
  show ?case using 1 dR 2 3 by blast
qed

lemma clean_tags [simp]: "clean (e\<lparr>tags := t\<rparr>) = clean e"
  by (cases "hobby_type e") (simp_all add: clean_def)

lemma unknown_filter:
  "set (filter (\<lambda>k. k \<notin> set ls) ks) = set ks - set ls"
  by auto

lemma clean_unknown:
  assumes "hobby_type e = Some ht" and "data e = JDict d"
    and "set (map fst d) - set (map label (fields_all ht)) \<noteq> {}"
  shows "clean e = Inl (ValidationErrorDict [(''data'', UnknownFieldKeys
      (sorted_list_of_set (set (map fst d) - set (map label (fields_all ht)))))])"
proof -
  let ?u = "filter (\<lambda>k. k \<notin> set (map label (fields_all ht))) (map fst d)"
  have s: "set ?u = set (map fst d) - set (map label (fields_all ht))"
    by (rule unknown_filter)
  with assms(3) have ne: "?u \<noteq> []" by (metis set_empty)
  have "sort (remdups ?u) = sorted_list_of_set (set ?u)"
    by (simp only: sorted_list_of_set_sort_remdups)
  with ne show ?thesis
    using assms(1,2) unfolding s by (simp add: clean_def Let_def)
qed

lemma clean_known:
  assumes "hobby_type e = Some ht" and "data e = JDict d"
    and "set (map fst d) \<subseteq> set (map label (fields_all ht))"
  shows "clean e =
     (case clean_loop (fields_all ht) d [] of
        Inl ex \<Rightarrow> Inl ex
      | Inr errors \<Rightarrow> if errors \<noteq> [] then Inr [Printed [(''data'', errors)]] else Inr [])"
proof -
  have "filter (\<lambda>k. k \<notin> set (map label (fields_all ht))) (map fst d) = []"
    using assms(3) by (auto simp: filter_empty_conv)
  then show ?thesis using assms(1,2) by (simp add: clean_def Let_def)
qed

lemma validate_of_clean:
  "validate e =
     (case clean e of
        Inl (ValidationErrorDict ed) \<Rightarrow>
          Inl (DRFValidationError (DetailDict (map (\<lambda>(k, m). (k, [m])) ed)))
      | Inl (ValidationError m) \<Rightarrow> Inl (DRFValidationError (DetailList [m]))
      | Inl ex \<Rightarrow> Inl ex
      | Inr out \<Rightarrow> Inr (e, out))"
proof -
  have "(case tags e of None \<Rightarrow> e\<lparr>tags := None\<rparr> | Some t \<Rightarrow> e\<lparr>tags := None\<rparr>\<lparr>tags := Some t\<rparr>) = e"
    by (cases e) (simp split: option.splits)
  then show ?thesis
    by (simp add: validate_def Let_def split: sum.splits py_exception.splits)
qed

text \<open>
  C3. When some key of the record is not a label of the schema, \<open>clean\<close> raises a
  \<open>ValidationError\<close> with one entry, under \<open>"data"\<close>, whose message lists the unknown keys in
  ascending order, each once; \<open>validate\<close> turns it into the rejection with that one entry.
\<close>

theorem unknown_keys_aggregate:
  assumes ht: "hobby_type e = Some ht"
    and d: "data e = JDict d"
    and un: "set (map fst d) - set (map label (fields_all ht)) \<noteq> {}"
  shows "\<exists>ks. sorted ks \<and> distinct ks
      \<and> set ks = set (map fst d) - set (map label (fields_all ht))
      \<and> clean e = Inl (ValidationErrorDict [(''data'', UnknownFieldKeys ks)])
      \<and> validate e = Inl (DRFValidationError (DetailDict [(''data'', [UnknownFieldKeys ks])]))"
proof -
  let ?U = "set (map fst d) - set (map label (fields_all ht))"
  let ?ks = "sorted_list_of_set ?U"
  have fin: "finite ?U" by simp
  have c: "clean e = Inl (ValidationErrorDict [(''data'', UnknownFieldKeys ?ks)])"
    by (rule clean_unknown [OF ht d un])
  have v: "validate e = Inl (DRFValidationError (DetailDict [(''data'', [UnknownFieldKeys ?ks])]))"
    by (simp add: validate_of_clean c)
  have "sorted ?ks" "distinct ?ks" "set ?ks = ?U"
    using fin by simp_all
  with c v show ?thesis by blast
qed

theorem unknown_keys_aggregate_witness:
  "hobby_type (entry_of [title_field, rating_field]
       [(''title'', JStr ''x''), (''rating'', JInt 5), (''bogus'', JInt 1), (''extra'', JInt 2)])
     = Some \<lparr>name = ''Movies'', fields_all = [title_field, rating_field]\<rparr>
   \<and> data (entry_of [title_field, rating_field]
       [(''title'', JStr ''x''), (''rating'', JInt 5), (''bogus'', JInt 1), (''extra'', JInt 2)])
     = JDict [(''title'', JStr ''x''), (''rating'', JInt 5), (''bogus'', JInt 1),
         (''extra'', JInt 2)]
   \<and> set (map fst [(''title'', JStr ''x''), (''rating'', JInt 5), (''bogus'', JInt 1),
         (''extra'', JInt 2)])
       - set (map label
           (fields_all \<lparr>name = ''Movies'', fields_all = [title_field, rating_field]\<rparr>)) \<noteq> {}
   \<and> clean (entry_of [title_field, rating_field]
       [(''title'', JStr ''x''), (''rating'', JInt 5), (''bogus'', JInt 1), (''extra'', JInt 2)])
     = Inl (ValidationErrorDict [(''data'', UnknownFieldKeys [''bogus'', ''extra''])])
   \<and> validate (entry_of [title_field, rating_field]
       [(''title'', JStr ''x''), (''rating'', JInt 5), (''bogus'', JInt 1), (''extra'', JInt 2)])
     = Inl (DRFValidationError (DetailDict [(''data'', [UnknownFieldKeys [''bogus'', ''extra'']])]))"
proof -
  let ?d = "[(''title'', JStr ''x''), (''rating'', JInt 5), (''bogus'', JInt 1),
      (''extra'', JInt 2)]"
  let ?ht = "\<lparr>name = ''Movies'', fields_all = [title_field, rating_field]\<rparr>"
  let ?e = "entry_of [title_field, rating_field] ?d"
  have a: "hobby_type ?e = Some ?ht" by (simp add: entry_of_def)
  have b: "data ?e = JDict ?d" by (simp add: entry_of_def)
  have c: "set (map fst ?d) - set (map label (fields_all ?ht)) \<noteq> {}"
    by (simp add: title_field_def rating_field_def)
  from unknown_keys_aggregate [OF a b c] obtain ks
    where ks: "clean ?e = Inl (ValidationErrorDict [(''data'', UnknownFieldKeys ks)])"
      and v: "validate ?e
        = Inl (DRFValidationError (DetailDict [(''data'', [UnknownFieldKeys ks])]))"
    by blast
  have "clean ?e = Inl (ValidationErrorDict [(''data'', UnknownFieldKeys [''bogus'', ''extra''])])"
    by (simp add: clean_def entry_of_def title_field_def rating_field_def)
  with ks have "ks = [''bogus'', ''extra'']" by simp
  with ks v a b c show ?thesis by simp
qed

lemma validate_unknown:
  assumes "hobby_type e = Some ht" and "data e = JDict d"
    and "set (map fst d) - set (map label (fields_all ht)) \<noteq> {}"
  shows "validate e = Inl (DRFValidationError (DetailDict [(''data'', [UnknownFieldKeys
      (sorted_list_of_set (set (map fst d) - set (map label (fields_all ht))))])]))"
  by (simp add: validate_of_clean clean_unknown [OF assms])

text \<open>
  C1 (as the code has it). For a schema with well-formed options and a record that is a
  dict: when the record has unknown keys, \<open>validate\<close> rejects with the unknown-key entry under
  \<open>"data"\<close> alone; the per-field checks are not run and nothing is merged in. When the record
  has no unknown keys, the loop of \<open>clean\<close> ends normally: every \<open>ValidationError\<close> is caught,
  and the dict \<open>errors\<close> holds an entry under the label of exactly those fields whose check
  fails, each with the message of such a field.
\<close>

theorem per_field_violations_recorded:
  assumes ht: "hobby_type e = Some ht"
    and d: "data e = JDict d"
    and wf: "\<forall>f\<in>set (fields_all ht). options_wellformed f"
  shows "(set (map fst d) - set (map label (fields_all ht)) \<noteq> {} \<longrightarrow>
            (\<exists>ks. validate e
               = Inl (DRFValidationError (DetailDict [(''data'', [UnknownFieldKeys ks])]))))
     \<and> (set (map fst d) \<subseteq> set (map label (fields_all ht)) \<longrightarrow>
            (\<exists>errors. clean_loop (fields_all ht) d [] = Inr errors
               \<and> distinct (map fst errors)
               \<and> fst ` set errors
                   = {label f |f. f \<in> set (fields_all ht) \<and> field_violation f d \<noteq> None}
               \<and> (\<forall>(k, m)\<in>set errors.
                     \<exists>f\<in>set (fields_all ht). label f = k \<and> field_violation f d = Some m)))"
proof -
  have 1: "set (map fst d) - set (map label (fields_all ht)) \<noteq> {} \<longrightarrow>
            (\<exists>ks. validate e
               = Inl (DRFValidationError (DetailDict [(''data'', [UnknownFieldKeys ks])])))"
    using validate_unknown [OF ht d] by blast
  from clean_loop_wellformed [OF wf, of "[]" d] obtain R
    where R: "clean_loop (fields_all ht) d [] = Inr R"
      and dR: "distinct (map fst R)"
      and kR: "fst ` set R
          = {label f |f. f \<in> set (fields_all ht) \<and> field_violation f d \<noteq> None}"
      and mR: "\<forall>k m. map_of R k = Some m \<longrightarrow>
          (\<exists>f\<in>set (fields_all ht). label f = k \<and> field_violation f d = Some m)"
    by auto
  have "\<forall>(k, m)\<in>set R.
      \<exists>f\<in>set (fields_all ht). label f = k \<and> field_violation f d = Some m"
    using mR dR by (auto simp: map_of_eq_Some_iff)
  with R dR kR 1 show ?thesis by blast
qed


lemma wellformed_examples:
  "options_wellformed title_field" "options_wellformed rating_field"
  "options_wellformed tags_field"
  by (simp_all add: options_wellformed_def opts_of_def title_field_def rating_field_def
      tags_field_def dict_get_def dict_get_default_def numeric_or_unset_def)

theorem per_field_violations_recorded_witness:
  "hobby_type (entry_of [title_field, rating_field] [(''rating'', JInt 11)])
     = Some \<lparr>name = ''Movies'', fields_all = [title_field, rating_field]\<rparr>
   \<and> data (entry_of [title_field, rating_field] [(''rating'', JInt 11)])
     = JDict [(''rating'', JInt 11)]
   \<and> options_wellformed title_field \<and> options_wellformed rating_field
   \<and> set (map fst [(''rating'', JInt 11)])
       \<subseteq> set (map label
           (fields_all \<lparr>name = ''Movies'', fields_all = [title_field, rating_field]\<rparr>))
   \<and> clean_loop [title_field, rating_field] [(''rating'', JInt 11)] []
       = Inr [(''title'', Msg ''This field is required.''), (''rating'', MustBeLe (JInt 10))]
   \<and> (\<exists>errors. clean_loop [title_field, rating_field] [(''rating'', JInt 11)] [] = Inr errors
         \<and> fst ` set errors
             = {label f |f. f \<in> set [title_field, rating_field]
                  \<and> field_violation f [(''rating'', JInt 11)] \<noteq> None})"
proof -
  let ?d = "[(''rating'', JInt 11)]"
  let ?ht = "\<lparr>name = ''Movies'', fields_all = [title_field, rating_field]\<rparr>"
  let ?e = "entry_of [title_field, rating_field] ?d"
  have a: "hobby_type ?e = Some ?ht" by (simp add: entry_of_def)
  have b: "data ?e = JDict ?d" by (simp add: entry_of_def)
  have c: "\<forall>f\<in>set (fields_all ?ht). options_wellformed f"
    by (simp add: wellformed_examples)
  have k: "set (map fst ?d) \<subseteq> set (map label (fields_all ?ht))"
    by (simp add: title_field_def rating_field_def)
  have l: "clean_loop [title_field, rating_field] ?d []
       = Inr [(''title'', Msg ''This field is required.''), (''rating'', MustBeLe (JInt 10))]"
    by (simp add: title_field_def rating_field_def present_def dict_get_def
        validate_value_def validate_number_def FieldType_defs opts_of_def opts_get_def
        num_lt_def num_gt_def)
  from per_field_violations_recorded [OF a b c] k
  have "\<exists>errors. clean_loop [title_field, rating_field] ?d [] = Inr errors
         \<and> fst ` set errors
             = {label f |f. f \<in> set [title_field, rating_field]
                  \<and> field_violation f ?d \<noteq> None}"
    by auto
  with a b k l wellformed_examples(1,2) show ?thesis by blast
qed

text \<open>
  A required field that is missing from a record without unknown keys: \<open>clean\<close> prints the
  errors and returns, so \<open>validate\<close> returns \<open>attrs\<close>. With an unknown key as well, the
  rejection holds the unknown-key entry only.
\<close>

theorem per_field_failure_accepted:
  "validate (entry_of [title_field] [])
     = Inr (entry_of [title_field] [],
         [Printed [(''data'', [(''title'', Msg ''This field is required.'')])]])
   \<and> validate (entry_of [title_field] [(''bogus'', JInt 1)])
     = Inl (DRFValidationError (DetailDict [(''data'', [UnknownFieldKeys [''bogus'']])]))"
  by (simp add: validate_of_clean clean_def entry_of_def title_field_def present_def)

text \<open>
  C5 (as the code has it). For a schema with well-formed options and a record that is a
  dict, \<open>validate\<close> returns \<open>attrs\<close> or raises the rejection, never both; a rejection has the
  single slot \<open>"data"\<close>, which lies in the schema-level slot united with the field keys.
\<close>

theorem validate_total_wellformed:
  assumes ht: "hobby_type e = Some ht"
    and d: "data e = JDict d"
    and wf: "\<forall>f\<in>set (fields_all ht). options_wellformed f"
  shows "((\<exists>out. validate e = Inr (e, out)) \<or>
          (\<exists>ks. validate e
             = Inl (DRFValidationError (DetailDict [(''data'', [UnknownFieldKeys ks])]))))
     \<and> \<not> ((\<exists>a out. validate e = Inr (a, out)) \<and> (\<exists>det. validate e = Inl det))
     \<and> (\<forall>det. validate e = Inl (DRFValidationError (DetailDict det)) \<longrightarrow>
            fst ` set det \<subseteq> {''data''} \<union> key ` set (fields_all ht))"
proof (cases "set (map fst d) \<subseteq> set (map label (fields_all ht))")
  case True
  from clean_loop_wellformed [OF wf, of "[]" d] obtain R
    where R: "clean_loop (fields_all ht) d [] = Inr R" by auto
  have "\<exists>out. clean e = Inr out"
    by (simp add: clean_known [OF ht d True] R)
  then obtain out where "validate e = Inr (e, out)"
    by (auto simp: validate_of_clean)
  then show ?thesis by simp
next
  case False
  then have "set (map fst d) - set (map label (fields_all ht)) \<noteq> {}" by blast
  from validate_unknown [OF ht d this] show ?thesis by simp
qed

theorem validate_total_wellformed_witness:
  "hobby_type (entry_of [title_field, rating_field] [(''title'', JStr ''x''), (''rating'', JInt 5)])
     = Some \<lparr>name = ''Movies'', fields_all = [title_field, rating_field]\<rparr>
   \<and> data (entry_of [title_field, rating_field] [(''title'', JStr ''x''), (''rating'', JInt 5)])
     = JDict [(''title'', JStr ''x''), (''rating'', JInt 5)]
   \<and> options_wellformed title_field \<and> options_wellformed rating_field
   \<and> validate (entry_of [title_field, rating_field]
         [(''title'', JStr ''x''), (''rating'', JInt 5)])
       = Inr (entry_of [title_field, rating_field]
           [(''title'', JStr ''x''), (''rating'', JInt 5)], [])"
proof -
  let ?d = "[(''title'', JStr ''x''), (''rating'', JInt 5)]"
  let ?ht = "\<lparr>name = ''Movies'', fields_all = [title_field, rating_field]\<rparr>"
  let ?e = "entry_of [title_field, rating_field] ?d"
  have a: "hobby_type ?e = Some ?ht" by (simp add: entry_of_def)
  have b: "data ?e = JDict ?d" by (simp add: entry_of_def)
  have c: "\<forall>f\<in>set (fields_all ?ht). options_wellformed f"
    by (simp add: wellformed_examples)
  have cl: "clean ?e = Inr []"
    by (simp add: clean_def entry_of_def title_field_def rating_field_def present_def
        dict_get_def validate_value_def validate_number_def FieldType_defs opts_of_def
        opts_get_def num_lt_def num_gt_def)
  have "\<not> (\<exists>ks. validate ?e
             = Inl (DRFValidationError (DetailDict [(''data'', [UnknownFieldKeys ks])])))"
    by (simp add: validate_of_clean cl)
  with validate_total_wellformed [OF a b c] obtain out where o: "validate ?e = Inr (?e, out)"
    by blast
  have "validate ?e = Inr (?e, [])" by (simp add: validate_of_clean cl)
  with o a b wellformed_examples(1,2) show ?thesis by simp
qed

text \<open>
  A number field whose \<open>min\<close> is a string, and a numeric value: the comparison raises
  \<open>TypeError\<close>, which neither \<open>clean\<close> nor \<open>validate\<close> catches.
\<close>

theorem type_error_escapes:
  "validate (entry_of [badmin_field] [(''rating'', JInt 5)]) = Inl TypeError"
  by (simp add: validate_of_clean clean_def entry_of_def badmin_field_def present_def
      dict_get_def validate_value_def validate_number_def FieldType_defs opts_of_def
      opts_get_def num_lt_def)

lemma validate_value_key [simp]: "validate_value (f\<lparr>key := k\<rparr>) v = validate_value f v"
  by (simp add: validate_value_def opts_of_def)















end
